theory Spec2Isabelle
  imports Main
begin

section \<open>Python values and exceptions\<close>

text \<open>
  The module \<^verbatim>\<open>hotel/pms_systems.py\<close> works on what \<^verbatim>\<open>json.loads\<close> returns under its
  \<^verbatim>\<open>object_hook\<close>: \<^verbatim>\<open>None\<close>, booleans, integers, strings, lists, and a namedtuple
  \<^verbatim>\<open>X\<close> for every JSON object. \<open>PUUID\<close> is the value of \<^verbatim>\<open>uuid.uuid4()\<close>. JSON numbers
  with a fraction or an exponent (Python floats) are not part of the model.
  Strings are byte strings: the model is exact on ASCII text. Case conversion
  (\<open>str_lower\<close>, \<open>str_capitalize\<close>) and the identifier test (\<open>isidentifier\<close>) are
  those of Python on ASCII characters, and leave every other byte as it is.
\<close>

datatype pyval =
    PNone
  | PBool bool
  | PInt int
  | PStr string
  | PList "pyval list"
  | PX "(string \<times> pyval) list"
  | PUUID string

text \<open>
  The exceptions that can travel through the module. \<open>APIError\<close>, \<open>JsonValueError\<close> and
  \<open>IncorrectHotelIdException\<close> carry their message. \<open>DoesNotExist\<close> and
  \<open>MultipleObjectsReturned\<close> are the two exceptions of Django's \<^verbatim>\<open>QuerySet.get\<close>.
\<close>

datatype exn =
    APIError string
  | JsonValueError string
  | IncorrectHotelIdException string
  | ValueError
  | TypeError
  | AttributeError
  | JSONDecodeError
  | DoesNotExist
  | MultipleObjectsReturned

text \<open>Python's truth value of an object (\<^verbatim>\<open>not x\<close> is its negation).\<close>

fun truthy :: "pyval \<Rightarrow> bool" where
  "truthy PNone = False"
| "truthy (PBool b) = b"
| "truthy (PInt i) = (i \<noteq> 0)"
| "truthy (PStr s) = (s \<noteq> [])"
| "truthy (PList xs) = (xs \<noteq> [])"
| "truthy (PX fs) = (fs \<noteq> [])"
| "truthy (PUUID u) = True"

text \<open>
  Reading a data attribute \<^verbatim>\<open>obj.Name\<close>. The module reads only the attributes
  \<^verbatim>\<open>Events\<close>, \<^verbatim>\<open>Value\<close>, \<^verbatim>\<open>ReservationId\<close>, \<^verbatim>\<open>GuestId\<close>, \<^verbatim>\<open>HotelId\<close>, \<^verbatim>\<open>Status\<close>,
  \<^verbatim>\<open>CheckInDate\<close>, \<^verbatim>\<open>CheckOutDate\<close>, \<^verbatim>\<open>Country\<close>, \<^verbatim>\<open>Phone\<close> and \<^verbatim>\<open>Name\<close>; none of them is
  an attribute of a built-in type, so only a namedtuple with such a field has it.
\<close>

fun py_getattr :: "pyval \<Rightarrow> string \<Rightarrow> exn + pyval" where
  "py_getattr (PX fs) a = (case map_of fs a of Some v \<Rightarrow> Inr v | None \<Rightarrow> Inl AttributeError)"
| "py_getattr v a = Inl AttributeError"

text \<open>The items a \<^verbatim>\<open>for\<close> loop draws from an object; \<^verbatim>\<open>TypeError\<close> when it is not iterable.\<close>

fun py_iter :: "pyval \<Rightarrow> exn + pyval list" where
  "py_iter (PList xs) = Inr xs"
| "py_iter (PStr s) = Inr (map (\<lambda>c. PStr [c]) s)"
| "py_iter (PX fs) = Inr (map snd fs)"
| "py_iter v = Inl TypeError"

definition py_lower_char :: "char \<Rightarrow> char" where
  "py_lower_char c =
     (let n = (of_char c :: nat) in if 65 \<le> n \<and> n \<le> 90 then char_of (n + 32) else c)"

definition py_upper_char :: "char \<Rightarrow> char" where
  "py_upper_char c =
     (let n = (of_char c :: nat) in if 97 \<le> n \<and> n \<le> 122 then char_of (n - 32) else c)"

definition str_lower :: "string \<Rightarrow> string" where
  "str_lower s = map py_lower_char s"

text \<open>\<^verbatim>\<open>str.capitalize()\<close>: the first character upper-cased, the rest lower-cased.\<close>

fun str_capitalize :: "string \<Rightarrow> string" where
  "str_capitalize [] = []"
| "str_capitalize (c # cs) = py_upper_char c # str_lower cs"

text \<open>
  \<^verbatim>\<open>country.lower()\<close> on an arbitrary object: a string has the method; a namedtuple with
  a field \<^verbatim>\<open>lower\<close> yields that field's value, which is not callable; every other object
  has no such attribute.
\<close>

fun py_lower :: "pyval \<Rightarrow> exn + string" where
  "py_lower (PStr s) = Inr (str_lower s)"
| "py_lower (PX fs) = (case map_of fs ''lower'' of Some v \<Rightarrow> Inl TypeError | None \<Rightarrow> Inl AttributeError)"
| "py_lower v = Inl AttributeError"

section \<open>Language resolution\<close>

text \<open>
  \<^verbatim>\<open>Language.choices\<close> comes from \<^verbatim>\<open>hotel.models\<close>, which is not among the sources: the
  list of (code, label) pairs is a parameter. The loop evaluates \<^verbatim>\<open>country.lower()\<close>
  once per entry, so with no entry nothing is evaluated.
\<close>

fun language_loop :: "(string \<times> string) list \<Rightarrow> pyval \<Rightarrow> exn + string" where
  "language_loop [] country = Inr ''None''"
| "language_loop (choice # rest) country =
     (case py_lower country of
        Inl err \<Rightarrow> Inl err
      | Inr l \<Rightarrow> if fst choice = l then Inr (snd choice) else language_loop rest country)"

definition get_guest_language :: "(string \<times> string) list \<Rightarrow> pyval \<Rightarrow> exn + string" where
  "get_guest_language choices country =
     (if \<not> truthy country then Inr ''None'' else language_loop choices country)"

section \<open>Cleaning a payload\<close>

text \<open>
  \<^verbatim>\<open>json.loads\<close> is Python's library. Its scanner is a parameter of the model
  (\<open>json_decode\<close> below): on a JSON document it yields the document's tree; on any other
  text it yields the objects it had closed before it met the error, since the
  \<^verbatim>\<open>object_hook\<close> has already run on those when \<^verbatim>\<open>JSONDecodeError\<close> is raised.
\<close>

datatype json =
    JNull
  | JBool bool
  | JInt int
  | JStr string
  | JArr "json list"
  | JObj "(string \<times> json) list"

datatype decode_result = Document json | Malformed "json list"

text \<open>\<^verbatim>\<open>dict\<close> built from the pairs of an object: a repeated key keeps its first place and
  takes the last value.\<close>

fun dict_set :: "(string \<times> 'v) list \<Rightarrow> string \<Rightarrow> 'v \<Rightarrow> (string \<times> 'v) list" where
  "dict_set [] k v = [(k, v)]"
| "dict_set ((k', v') # d) k v = (if k' = k then (k', v) # d else (k', v') # dict_set d k v)"

definition py_dict :: "(string \<times> 'v) list \<Rightarrow> (string \<times> 'v) list" where
  "py_dict pairs = foldl (\<lambda>d kv. dict_set d (fst kv) (snd kv)) [] pairs"

text \<open>\<^verbatim>\<open>collections.namedtuple\<close> refuses, with \<^verbatim>\<open>ValueError\<close>, a field name that is not an
  identifier, is a keyword, starts with an underscore or is repeated.\<close>

definition is_letter :: "char \<Rightarrow> bool" where
  "is_letter c =
     (let n = (of_char c :: nat) in (65 \<le> n \<and> n \<le> 90) \<or> (97 \<le> n \<and> n \<le> 122))"

definition is_digit :: "char \<Rightarrow> bool" where
  "is_digit c = (let n = (of_char c :: nat) in 48 \<le> n \<and> n \<le> 57)"

fun isidentifier :: "string \<Rightarrow> bool" where
  "isidentifier [] = False"
| "isidentifier (c # cs) =
     ((is_letter c \<or> c = CHR ''_'') \<and> list_all (\<lambda>d. is_letter d \<or> is_digit d \<or> d = CHR ''_'') cs)"

definition kwlist :: "string list" where
  "kwlist =
     [''False'', ''None'', ''True'', ''and'', ''as'', ''assert'', ''async'', ''await'',
      ''break'', ''class'', ''continue'', ''def'', ''del'', ''elif'', ''else'', ''except'',
      ''finally'', ''for'', ''from'', ''global'', ''if'', ''import'', ''in'', ''is'',
      ''lambda'', ''nonlocal'', ''not'', ''or'', ''pass'', ''raise'', ''return'', ''try'',
      ''while'', ''with'', ''yield'']"

definition field_name_ok :: "string \<Rightarrow> bool" where
  "field_name_ok name =
     (isidentifier name \<and> name \<notin> set kwlist \<and> take 1 name \<noteq> ''_'')"

text \<open>The hook of the source: \<^verbatim>\<open>lambda d: namedtuple('X', d.keys())(*d.values())\<close>.\<close>

definition object_hook :: "(string \<times> pyval) list \<Rightarrow> exn + pyval" where
  "object_hook d =
     (if list_all field_name_ok (map fst d) \<and> distinct (map fst d) then Inr (PX d)
      else Inl ValueError)"

fun hook_json :: "json \<Rightarrow> exn + pyval"
  and hook_list :: "json list \<Rightarrow> exn + pyval list"
  and hook_pairs :: "(string \<times> json) list \<Rightarrow> exn + (string \<times> pyval) list" where
  "hook_json JNull = Inr PNone"
| "hook_json (JBool b) = Inr (PBool b)"
| "hook_json (JInt i) = Inr (PInt i)"
| "hook_json (JStr s) = Inr (PStr s)"
| "hook_json (JArr xs) = (case hook_list xs of Inl err \<Rightarrow> Inl err | Inr vs \<Rightarrow> Inr (PList vs))"
| "hook_json (JObj ps) =
     (case hook_pairs ps of Inl err \<Rightarrow> Inl err | Inr vs \<Rightarrow> object_hook (py_dict vs))"
| "hook_list [] = Inr []"
| "hook_list (x # xs) =
     (case hook_json x of
        Inl err \<Rightarrow> Inl err
      | Inr v \<Rightarrow> (case hook_list xs of Inl err \<Rightarrow> Inl err | Inr vs \<Rightarrow> Inr (v # vs)))"
| "hook_pairs [] = Inr []"
| "hook_pairs (p # ps) =
     (case hook_json (snd p) of
        Inl err \<Rightarrow> Inl err
      | Inr v \<Rightarrow> (case hook_pairs ps of Inl err \<Rightarrow> Inl err | Inr vs \<Rightarrow> Inr ((fst p, v) # vs)))"

text \<open>\<^verbatim>\<open>json.loads(payload, object_hook=...)\<close>: the value, the hook's \<^verbatim>\<open>ValueError\<close>, or
  \<^verbatim>\<open>JSONDecodeError\<close>.\<close>

definition json_loads :: "(string \<Rightarrow> decode_result) \<Rightarrow> string \<Rightarrow> exn + pyval" where
  "json_loads decode payload =
     (case decode payload of
        Document j \<Rightarrow> hook_json j
      | Malformed closed \<Rightarrow>
          (case hook_list closed of Inl err \<Rightarrow> Inl err | Inr vs \<Rightarrow> Inl JSONDecodeError))"

text \<open>
  \<^verbatim>\<open>PMS_Mews.clean_webhook_payload\<close>. The handler of \<^verbatim>\<open>JSONDecodeError\<close> executes
  \<^verbatim>\<open>raise JSONDecodeError\<close>: Python instantiates the class with no argument, and its
  constructor requires \<^verbatim>\<open>msg\<close>, \<^verbatim>\<open>doc\<close> and \<^verbatim>\<open>pos\<close>, so the statement raises \<^verbatim>\<open>TypeError\<close>.
\<close>

definition clean_webhook_payload :: "(string \<Rightarrow> decode_result) \<Rightarrow> string \<Rightarrow> exn + pyval" where
  "clean_webhook_payload decode payload =
     (if payload = [] then Inl (JsonValueError ''Incorrect json input'')
      else
        (case json_loads decode payload of
           Inl JSONDecodeError \<Rightarrow> Inl TypeError
         | Inl err \<Rightarrow> Inl err
         | Inr webhook_data \<Rightarrow> Inr webhook_data))"

section \<open>The record store and the environment\<close>

text \<open>
  \<^verbatim>\<open>hotel.models\<close> and the ORM are not among the sources. A table is the list of its
  rows; a column holds the value the call gives it; a column that a call does not set is
  \<open>None\<close>. \<^verbatim>\<open>filter\<close> selects by equality of the stored value, \<^verbatim>\<open>update\<close> writes every
  selected row, \<^verbatim>\<open>save\<close> appends a row under a fresh id, and \<^verbatim>\<open>get\<close> raises
  \<^verbatim>\<open>DoesNotExist\<close> when no row is selected and \<^verbatim>\<open>MultipleObjectsReturned\<close> when several
  are, as Django's \<^verbatim>\<open>QuerySet.get\<close> does.
\<close>

type_synonym timestamp = nat

record hotel_row =
  h_id :: nat
  h_pms_hotel_id :: pyval

record guest_row =
  g_id :: nat
  g_name :: pyval
  g_phone :: pyval
  g_language :: string
  g_created_at :: "timestamp option"
  g_updated_at :: "timestamp option"

record stay_row =
  s_id :: nat
  s_hotel_id :: nat
  s_pms_reservation_id :: pyval
  s_pms_guest_id :: pyval
  s_guest_id :: "nat option"
  s_status :: pyval
  s_checkin :: pyval
  s_checkout :: pyval
  s_created_at :: "timestamp option"
  s_updated_at :: "timestamp option"

text \<open>The state the module acts on: the three tables, the number of remote calls made,
  the number of UUIDs drawn, and the lines printed.\<close>

record world =
  hotels :: "hotel_row list"
  guests :: "guest_row list"
  stays :: "stay_row list"
  remote_calls :: nat
  uuid_draws :: nat
  printed :: "string list"

text \<open>
  \<^verbatim>\<open>hotel.external_api\<close> is not among the sources. Following the specification, a remote
  call either raises \<^verbatim>\<open>APIError\<close> (with a message) or returns the raw text of a response;
  which of the two may differ from one call to the next, so a remote function also takes
  the number of remote calls made before it.
\<close>

datatype response = Unavailable string | Body string

text \<open>
  What the module takes from outside: the module-level constant \<^verbatim>\<open>now\<close> (set once, when
  the module is loaded), \<^verbatim>\<open>Language.choices\<close>, the JSON scanner, the UUID generator (its
  k-th draw), whether \<^verbatim>\<open>JsonValueError\<close> of \<^verbatim>\<open>hotel.exceptions\<close> derives from
  \<^verbatim>\<open>ValueError\<close>, and the two remote functions \<^verbatim>\<open>handle_webhook\<close> calls.
\<close>

record env =
  now :: timestamp
  choices :: "(string \<times> string) list"
  json_decode :: "string \<Rightarrow> decode_result"
  uuid4 :: "nat \<Rightarrow> string"
  json_value_error_is_value_error :: bool
  get_reservation_details :: "pyval \<Rightarrow> nat \<Rightarrow> response"
  get_guest_details :: "pyval \<Rightarrow> nat \<Rightarrow> response"

fun qs_get :: "'r list \<Rightarrow> exn + 'r" where
  "qs_get [] = Inl DoesNotExist"
| "qs_get [r] = Inr r"
| "qs_get (r # r' # rs) = Inl MultipleObjectsReturned"

definition fresh_id :: "nat list \<Rightarrow> nat" where
  "fresh_id ids = Suc (fold max ids 0)"

section \<open>The adapter registry and the retrying call\<close>

datatype pms = PMS_Mews

text \<open>\<^verbatim>\<open>PMS.name\<close>: the class name without its first four characters.\<close>

fun pms_name :: "pms \<Rightarrow> string" where
  "pms_name PMS_Mews = drop 4 ''PMS_Mews''"

text \<open>\<^verbatim>\<open>get_pms\<close>: \<^verbatim>\<open>PMS_Mews\<close> is the only class of the module whose name starts with
  \<^verbatim>\<open>PMS_\<close>; for any other name the function returns \<^verbatim>\<open>False\<close> (here \<open>None\<close>).\<close>

definition get_pms :: "string \<Rightarrow> pms option" where
  "get_pms name =
     (let fullname = ''PMS_'' @ str_capitalize name
      in if fullname = ''PMS_Mews'' then Some PMS_Mews else None)"

text \<open>\<^verbatim>\<open>pms.clean_webhook_payload(data)\<close>, where \<^verbatim>\<open>pms\<close> is what \<^verbatim>\<open>get_pms\<close> returned:
  \<^verbatim>\<open>False\<close> has no such method.\<close>

fun pms_clean :: "env \<Rightarrow> pms option \<Rightarrow> string \<Rightarrow> exn + pyval" where
  "pms_clean e None data = Inl AttributeError"
| "pms_clean e (Some PMS_Mews) data = clean_webhook_payload (json_decode e) data"

text \<open>The body of the \<^verbatim>\<open>try\<close> statement of \<^verbatim>\<open>make_api_call_with_retry\<close>: the remote call,
  then the cleaning of what it returned.\<close>

definition attempt ::
  "env \<Rightarrow> pms option \<Rightarrow> ('p \<Rightarrow> nat \<Rightarrow> response) \<Rightarrow> 'p \<Rightarrow> world \<Rightarrow> exn + pyval" where
  "attempt e pms request parameters w =
     (case request parameters (remote_calls w) of
        Unavailable msg \<Rightarrow> Inl (APIError msg)
      | Body data \<Rightarrow> pms_clean e pms data)"

text \<open>
  The \<^verbatim>\<open>while retry_times < 10\<close> loop. \<^verbatim>\<open>except APIError\<close> prints the message and counts
  the attempt; any other exception leaves the function; a cleaned value leaves the loop
  through \<^verbatim>\<open>break\<close>. The loop yields \<^verbatim>\<open>data\<close> and \<^verbatim>\<open>retry_times\<close> as they are when it
  is left.
\<close>

function retry_loop ::
  "env \<Rightarrow> pms option \<Rightarrow> ('p \<Rightarrow> nat \<Rightarrow> response) \<Rightarrow> 'p \<Rightarrow> nat \<Rightarrow> world \<Rightarrow>
   (exn + pyval \<times> nat) \<times> world" where
  "retry_loop e pms request parameters retry_times w =
     (if retry_times < 10 then
        (case attempt e pms request parameters w of
           Inl (APIError msg) \<Rightarrow>
             retry_loop e pms request parameters (retry_times + 1)
               (w\<lparr>remote_calls := remote_calls w + 1, printed := printed w @ [msg]\<rparr>)
         | Inl err \<Rightarrow> (Inl err, w\<lparr>remote_calls := remote_calls w + 1\<rparr>)
         | Inr cleaned \<Rightarrow> (Inr (cleaned, retry_times), w\<lparr>remote_calls := remote_calls w + 1\<rparr>))
      else (Inr (PNone, retry_times), w))"
  by pat_completeness auto
termination
  by (relation "measure (\<lambda>(e, pms, request, parameters, retry_times, w). 10 - retry_times)") auto

declare retry_loop.simps [simp del]

definition make_api_call_with_retry ::
  "env \<Rightarrow> string \<Rightarrow> ('p \<Rightarrow> nat \<Rightarrow> response) \<Rightarrow> 'p \<Rightarrow> world \<Rightarrow> (exn + pyval) \<times> world" where
  "make_api_call_with_retry e name request parameters w =
     (case retry_loop e (get_pms name) request parameters 0 w of
        (Inl err, w') \<Rightarrow> (Inl err, w')
      | (Inr (data, retry_times), w') \<Rightarrow>
          if retry_times = 10 then (Inl (APIError []), w') else (Inr data, w'))"

section \<open>Reconciliation\<close>

text \<open>\<^verbatim>\<open>uuid.uuid4() if not guest.Name else guest.Name\<close>.\<close>

definition guest_name :: "env \<Rightarrow> pyval \<Rightarrow> world \<Rightarrow> pyval \<times> world" where
  "guest_name e name w =
     (if \<not> truthy name then (PUUID (uuid4 e (uuid_draws w)), w\<lparr>uuid_draws := uuid_draws w + 1\<rparr>)
      else (name, w))"

definition guests_with_phone :: "pyval \<Rightarrow> guest_row list \<Rightarrow> guest_row list" where
  "guests_with_phone phone rows = filter (\<lambda>r. g_phone r = phone) rows"

definition update_or_create_guest :: "env \<Rightarrow> pyval \<Rightarrow> world \<Rightarrow> (exn + nat option) \<times> world" where
  "update_or_create_guest e guest w =
     (case py_getattr guest ''Country'' of
        Inl err \<Rightarrow> (Inl err, w)
      | Inr country \<Rightarrow>
     (case get_guest_language (choices e) country of
        Inl err \<Rightarrow> (Inl err, w)
      | Inr language \<Rightarrow>
     (case py_getattr guest ''Phone'' of
        Inl err \<Rightarrow> (Inl err, w)
      | Inr phone \<Rightarrow>
          if \<not> truthy phone \<or> phone = PStr ''Not available'' then (Inr None, w)
          else if guests_with_phone phone (guests w) \<noteq> [] then
            (case py_getattr guest ''Name'' of
               Inl err \<Rightarrow> (Inl err, w)
             | Inr name \<Rightarrow>
                 (case guest_name e name w of
                    (nm, w1) \<Rightarrow>
                      let w2 = w1\<lparr>guests :=
                                 map (\<lambda>r. if g_phone r = phone
                                          then r\<lparr>g_name := nm, g_phone := phone,
                                                 g_language := language,
                                                 g_updated_at := Some (now e)\<rparr>
                                          else r) (guests w1)\<rparr>
                      in (case qs_get (guests_with_phone phone (guests w2)) of
                            Inl err \<Rightarrow> (Inl err, w2)
                          | Inr r \<Rightarrow> (Inr (Some (g_id r)), w2))))
          else
            (case py_getattr guest ''Name'' of
               Inl err \<Rightarrow> (Inl err, w)
             | Inr name \<Rightarrow>
                 (case guest_name e name w of
                    (nm, w1) \<Rightarrow>
                      let new_guest = \<lparr>g_id = fresh_id (map g_id (guests w1)), g_name = nm,
                                       g_phone = phone, g_language = language,
                                       g_created_at = Some (now e), g_updated_at = None\<rparr>;
                          w2 = w1\<lparr>guests := guests w1 @ [new_guest]\<rparr>
                      in if guests_with_phone phone (guests w2) = [] then (Inr None, w2)
                         else (case qs_get (guests_with_phone phone (guests w2)) of
                                 Inl err \<Rightarrow> (Inl err, w2)
                               | Inr r \<Rightarrow> (Inr (Some (g_id r)), w2)))))))"

text \<open>The five vendor attributes both branches of \<^verbatim>\<open>update_or_create_stay\<close> read, in the
  order of the call's arguments, after the reservation id read for the lookup.\<close>

definition stay_attributes :: "pyval \<Rightarrow> exn + pyval \<times> pyval \<times> pyval \<times> pyval \<times> pyval" where
  "stay_attributes stay =
     (case py_getattr stay ''ReservationId'' of Inl err \<Rightarrow> Inl err | Inr rid \<Rightarrow>
     (case py_getattr stay ''GuestId'' of Inl err \<Rightarrow> Inl err | Inr gid \<Rightarrow>
     (case py_getattr stay ''Status'' of Inl err \<Rightarrow> Inl err | Inr status \<Rightarrow>
     (case py_getattr stay ''CheckInDate'' of Inl err \<Rightarrow> Inl err | Inr checkin \<Rightarrow>
     (case py_getattr stay ''CheckOutDate'' of Inl err \<Rightarrow> Inl err | Inr checkout \<Rightarrow>
        Inr (rid, gid, status, checkin, checkout))))))"

definition hotels_with_pms_id :: "pyval \<Rightarrow> hotel_row list \<Rightarrow> hotel_row list" where
  "hotels_with_pms_id hid rows = filter (\<lambda>h. h_pms_hotel_id h = hid) rows"

definition stays_with_reservation :: "pyval \<Rightarrow> stay_row list \<Rightarrow> stay_row list" where
  "stays_with_reservation rid rows = filter (\<lambda>r. s_pms_reservation_id r = rid) rows"

definition update_or_create_stay ::
  "env \<Rightarrow> pyval \<Rightarrow> nat option \<Rightarrow> world \<Rightarrow> (exn + unit) \<times> world" where
  "update_or_create_stay e stay guest_id w =
     (case py_getattr stay ''HotelId'' of
        Inl err \<Rightarrow> (Inl err, w)
      | Inr hid \<Rightarrow>
     (case qs_get (hotels_with_pms_id hid (hotels w)) of
        Inl err \<Rightarrow> (Inl err, w)
      | Inr h \<Rightarrow>
          if h_id h = 0 then (Inl (IncorrectHotelIdException ''Hotel ID not found''), w)
          else
            (case stay_attributes stay of
               Inl err \<Rightarrow> (Inl err, w)
             | Inr (rid, gid, status, checkin, checkout) \<Rightarrow>
                 if stays_with_reservation rid (stays w) \<noteq> [] then
                   (Inr (), w\<lparr>stays :=
                      map (\<lambda>r. if s_pms_reservation_id r = rid
                               then r\<lparr>s_hotel_id := h_id h, s_pms_reservation_id := rid,
                                      s_pms_guest_id := gid, s_guest_id := guest_id,
                                      s_status := status, s_checkin := checkin,
                                      s_checkout := checkout, s_updated_at := Some (now e)\<rparr>
                               else r) (stays w)\<rparr>)
                 else
                   (Inr (), w\<lparr>stays := stays w @
                      [\<lparr>s_id = fresh_id (map s_id (stays w)), s_hotel_id = h_id h,
                        s_pms_reservation_id = rid, s_pms_guest_id = gid,
                        s_guest_id = guest_id, s_status = status, s_checkin = checkin,
                        s_checkout = checkout, s_created_at = Some (now e),
                        s_updated_at = None\<rparr>]\<rparr>))))"

section \<open>The webhook handler\<close>

text \<open>The clauses \<^verbatim>\<open>except IncorrectHotelIdException\<close> and \<^verbatim>\<open>except ValueError\<close>.
  \<^verbatim>\<open>JSONDecodeError\<close> is a subclass of \<^verbatim>\<open>ValueError\<close>.\<close>

fun is_IncorrectHotelIdException :: "exn \<Rightarrow> bool" where
  "is_IncorrectHotelIdException (IncorrectHotelIdException m) = True"
| "is_IncorrectHotelIdException err = False"

fun is_ValueError :: "env \<Rightarrow> exn \<Rightarrow> bool" where
  "is_ValueError e ValueError = True"
| "is_ValueError e JSONDecodeError = True"
| "is_ValueError e (JsonValueError m) = json_value_error_is_value_error e"
| "is_ValueError e err = False"

text \<open>The body of the \<^verbatim>\<open>try\<close> statement, for one event.\<close>

definition handle_event :: "env \<Rightarrow> pms \<Rightarrow> pyval \<Rightarrow> world \<Rightarrow> (exn + unit) \<times> world" where
  "handle_event e self event w =
     (case py_getattr event ''Value'' of
        Inl err \<Rightarrow> (Inl err, w)
      | Inr val \<Rightarrow>
     (case py_getattr val ''ReservationId'' of
        Inl err \<Rightarrow> (Inl err, w)
      | Inr rid \<Rightarrow>
     (case make_api_call_with_retry e (pms_name self) (get_reservation_details e) rid w of
        (Inl err, w1) \<Rightarrow> (Inl err, w1)
      | (Inr stay, w1) \<Rightarrow>
     (case py_getattr stay ''GuestId'' of
        Inl err \<Rightarrow> (Inl err, w1)
      | Inr gid \<Rightarrow>
     (case make_api_call_with_retry e (pms_name self) (get_guest_details e) gid w1 of
        (Inl err, w2) \<Rightarrow> (Inl err, w2)
      | (Inr guest, w2) \<Rightarrow>
     (case update_or_create_guest e guest w2 of
        (Inl err, w3) \<Rightarrow> (Inl err, w3)
      | (Inr guest_id, w3) \<Rightarrow> update_or_create_stay e stay guest_id w3))))))"

text \<open>The \<^verbatim>\<open>for event in webhook_data.Events\<close> loop with its three handlers.\<close>

fun handle_events :: "env \<Rightarrow> pms \<Rightarrow> pyval list \<Rightarrow> world \<Rightarrow> bool \<times> world" where
  "handle_events e self [] w = (True, w)"
| "handle_events e self (event # rest) w =
     (case handle_event e self event w of
        (Inl err, w') \<Rightarrow>
          if is_IncorrectHotelIdException err then handle_events e self rest w'
          else if is_ValueError e err then handle_events e self rest w'
          else (False, w')
      | (Inr u, w') \<Rightarrow> handle_events e self rest w')"

definition handle_webhook :: "env \<Rightarrow> pms \<Rightarrow> pyval \<Rightarrow> world \<Rightarrow> (exn + bool) \<times> world" where
  "handle_webhook e self webhook_data w =
     (case py_getattr webhook_data ''Events'' of
        Inl err \<Rightarrow> (Inl err, w)
      | Inr evs \<Rightarrow>
          (case py_iter evs of
             Inl err \<Rightarrow> (Inl err, w)
           | Inr events \<Rightarrow>
               (case handle_events e self events w of (ok, w') \<Rightarrow> (Inr ok, w'))))"

section \<open>Runs of the reconciliation, and example data\<close>

text \<open>Reconciling a sequence of vendor guests, one call after the other, whatever each
  call returns or raises.\<close>

fun reconcile_guests :: "env \<Rightarrow> pyval list \<Rightarrow> world \<Rightarrow> world" where
  "reconcile_guests e [] w = w"
| "reconcile_guests e (guest # rest) w =
     reconcile_guests e rest (snd (update_or_create_guest e guest w))"

text \<open>No two rows of the Guest table hold the same phone number.\<close>

definition one_guest_per_phone :: "world \<Rightarrow> bool" where
  "one_guest_per_phone w = distinct (map g_phone (guests w))"

text \<open>Two reservations, one of hotel \<^verbatim>\<open>H1\<close> and one of hotel \<^verbatim>\<open>H9\<close>, their guests, and a
  webhook payload with one event for each reservation.\<close>

definition reservation_r1_text :: string where
  \<open>reservation_r1_text =
     ''{"ReservationId": "r1", "HotelId": "H1", "GuestId": "g1", "Status": "Confirmed", '' @
     ''"CheckInDate": "2026-11-05", "CheckOutDate": "2026-11-07"}''\<close>

definition reservation_r2_text :: string where
  \<open>reservation_r2_text =
     ''{"ReservationId": "r2", "HotelId": "H9", "GuestId": "g2", "Status": "Confirmed", '' @
     ''"CheckInDate": "2026-11-05", "CheckOutDate": "2026-11-06"}''\<close>

definition guest_g1_text :: string where
  \<open>guest_g1_text = ''{"GuestId": "g1", "Name": "Ada", "Phone": "+31201234567", "Country": "NL"}''\<close>

definition guest_g2_text :: string where
  \<open>guest_g2_text = ''{"GuestId": "g2", "Name": "Bob", "Phone": "+49301234567", "Country": "DE"}''\<close>

definition webhook_text :: string where
  \<open>webhook_text =
     ''{"Events": [{"Name": "ReservationUpdated", "Value": {"ReservationId": "r2"}}, '' @
     ''{"Name": "ReservationUpdated", "Value": {"ReservationId": "r1"}}]}''\<close>

definition reservation_json :: "string \<Rightarrow> string \<Rightarrow> string \<Rightarrow> string \<Rightarrow> json" where
  "reservation_json rid hid gid checkout =
     JObj [(''ReservationId'', JStr rid), (''HotelId'', JStr hid), (''GuestId'', JStr gid),
           (''Status'', JStr ''Confirmed''), (''CheckInDate'', JStr ''2026-11-05''),
           (''CheckOutDate'', JStr checkout)]"

definition guest_json :: "string \<Rightarrow> string \<Rightarrow> string \<Rightarrow> string \<Rightarrow> json" where
  "guest_json gid name phone country =
     JObj [(''GuestId'', JStr gid), (''Name'', JStr name), (''Phone'', JStr phone),
           (''Country'', JStr country)]"

definition event_json :: "string \<Rightarrow> json" where
  "event_json rid =
     JObj [(''Name'', JStr ''ReservationUpdated''), (''Value'', JObj [(''ReservationId'', JStr rid)])]"

text \<open>The values the hook makes of a reservation, of a guest and of an event.\<close>

definition vendor_stay :: "string \<Rightarrow> string \<Rightarrow> string \<Rightarrow> string \<Rightarrow> pyval" where
  "vendor_stay rid hid gid checkout =
     PX [(''ReservationId'', PStr rid), (''HotelId'', PStr hid), (''GuestId'', PStr gid),
         (''Status'', PStr ''Confirmed''), (''CheckInDate'', PStr ''2026-11-05''),
         (''CheckOutDate'', PStr checkout)]"

definition vendor_guest :: "string \<Rightarrow> string \<Rightarrow> string \<Rightarrow> string \<Rightarrow> pyval" where
  "vendor_guest gid name phone country =
     PX [(''GuestId'', PStr gid), (''Name'', PStr name), (''Phone'', PStr phone),
         (''Country'', PStr country)]"

definition webhook_event :: "string \<Rightarrow> pyval" where
  "webhook_event rid =
     PX [(''Name'', PStr ''ReservationUpdated''), (''Value'', PX [(''ReservationId'', PStr rid)])]"

text \<open>A scanner that knows the five texts above, and reads every other text as malformed
  with no object closed.\<close>

definition example_decode :: "string \<Rightarrow> decode_result" where
  "example_decode text =
     (if text = reservation_r1_text then Document (reservation_json ''r1'' ''H1'' ''g1'' ''2026-11-07'')
      else if text = reservation_r2_text then Document (reservation_json ''r2'' ''H9'' ''g2'' ''2026-11-06'')
      else if text = guest_g1_text then Document (guest_json ''g1'' ''Ada'' ''+31201234567'' ''NL'')
      else if text = guest_g2_text then Document (guest_json ''g2'' ''Bob'' ''+49301234567'' ''DE'')
      else if text = webhook_text then Document (JObj [(''Events'', JArr [event_json ''r2'', event_json ''r1''])])
      else Malformed [])"

text \<open>Remote functions that always answer.\<close>

definition example_reservation_details :: "pyval \<Rightarrow> nat \<Rightarrow> response" where
  "example_reservation_details reservation_id n =
     (if reservation_id = PStr ''r1'' then Body reservation_r1_text else Body reservation_r2_text)"

definition example_guest_details :: "pyval \<Rightarrow> nat \<Rightarrow> response" where
  "example_guest_details guest_id n =
     (if guest_id = PStr ''g1'' then Body guest_g1_text else Body guest_g2_text)"

text \<open>A remote function that is never available, and one that is unavailable twice and
  then answers with an empty body.\<close>

definition unavailable_api :: "pyval \<Rightarrow> nat \<Rightarrow> response" where
  "unavailable_api parameters n = Unavailable ''API is not available''"

definition empty_after_two :: "pyval \<Rightarrow> nat \<Rightarrow> response" where
  "empty_after_two parameters n =
     (if n < 2 then Unavailable ''API is not available'' else Body [])"

definition example_env :: env where
  "example_env =
     \<lparr>now = 1000,
      choices = [(''nl'', ''Dutch''), (''de'', ''German'')],
      json_decode = example_decode,
      uuid4 = (\<lambda>k. ''uuid-'' @ replicate k (CHR ''x'')),
      json_value_error_is_value_error = True,
      get_reservation_details = example_reservation_details,
      get_guest_details = example_guest_details\<rparr>"

text \<open>A store that knows hotel \<^verbatim>\<open>H1\<close> only, with no guest and no stay.\<close>

definition example_world :: world where
  "example_world =
     \<lparr>hotels = [\<lparr>h_id = 1, h_pms_hotel_id = PStr ''H1''\<rparr>],
      guests = [], stays = [], remote_calls = 0, uuid_draws = 0, printed = []\<rparr>"

text \<open>The store after reservation \<^verbatim>\<open>r1\<close> has been reconciled twice from \<open>example_world\<close>.\<close>

definition reconciled_world :: world where
  "reconciled_world =
     example_world\<lparr>stays :=
       [\<lparr>s_id = 1, s_hotel_id = 1, s_pms_reservation_id = PStr ''r1'',
         s_pms_guest_id = PStr ''g1'', s_guest_id = None, s_status = PStr ''Confirmed'',
         s_checkin = PStr ''2026-11-05'', s_checkout = PStr ''2026-11-07'',
         s_created_at = Some 1000, s_updated_at = Some 1000\<rparr>]\<rparr>"

section \<open>Auxiliary facts\<close>

lemma language_loop_str:
  "language_loop cs (PStr s) =
     Inr (case map_of cs (str_lower s) of None \<Rightarrow> ''None'' | Some label \<Rightarrow> label)"
  by (induction cs) auto

lemma language_of_text:
  assumes "country = PNone \<or> (\<exists>s. country = PStr s)"
  shows "\<exists>language. get_guest_language cs country = Inr language"
  using assms by (auto simp: get_guest_language_def language_loop_str)

text \<open>The hook raises nothing but \<^verbatim>\<open>ValueError\<close>, so cleaning never raises \<^verbatim>\<open>APIError\<close>.\<close>

lemma hook_errors:
  "(hook_json j = Inl err \<longrightarrow> err = ValueError)"
  "(hook_list js = Inl err \<longrightarrow> err = ValueError)"
  "(hook_pairs ps = Inl err \<longrightarrow> err = ValueError)"
  by (induction j and js and ps rule: hook_json_hook_list_hook_pairs.induct)
     (auto simp: object_hook_def split: sum.splits if_splits)

lemma pms_clean_not_APIError: "pms_clean e pms data \<noteq> Inl (APIError msg)"
proof (cases pms)
  case None
  then show ?thesis by simp
next
  case (Some a)
  then show ?thesis
    using hook_errors(1) hook_errors(2)
    by (cases a)
       (auto simp: clean_webhook_payload_def json_loads_def
             split: decode_result.splits sum.splits exn.splits)
qed

lemma map_upt_Suc_shift: "map m [0..<Suc k] = m 0 # map (\<lambda>i. m (Suc i)) [0..<k]"
proof -
  have "[0..<Suc k] = 0 # map Suc [0..<k]"
    by (simp add: upt_conv_Cons map_Suc_upt del: upt_Suc)
  then show ?thesis by (simp add: comp_def del: upt_Suc)
qed

text \<open>As long as the remote call is unavailable and attempts are left, the loop goes on:
  each attempt is one remote call and one printed message.\<close>

lemma retry_loop_unavailable:
  assumes "\<forall>i<k. request p (remote_calls w + i) = Unavailable (m i)"
    and "retry_times + k \<le> 10"
  shows "retry_loop e pms request p retry_times w =
         retry_loop e pms request p (retry_times + k)
           (w\<lparr>remote_calls := remote_calls w + k, printed := printed w @ map m [0..<k]\<rparr>)"
  using assms
proof (induction k arbitrary: retry_times w m)
  case 0
  then show ?case by simp
next
  case (Suc k)
  let ?w1 = "w\<lparr>remote_calls := remote_calls w + 1, printed := printed w @ [m 0]\<rparr>"
  from Suc.prems(1) have first: "request p (remote_calls w) = Unavailable (m 0)"
    by (metis add.right_neutral zero_less_Suc)
  from Suc.prems(2) have lt: "retry_times < 10" by simp
  have step: "retry_loop e pms request p retry_times w =
              retry_loop e pms request p (retry_times + 1) ?w1"
    using first lt by (subst retry_loop.simps) (simp add: attempt_def)
  have rest: "\<forall>i<k. request p (remote_calls ?w1 + i) = Unavailable (m (Suc i))"
    using Suc.prems(1) by auto
  have "retry_loop e pms request p (retry_times + 1) ?w1 =
        retry_loop e pms request p (retry_times + 1 + k)
          (?w1\<lparr>remote_calls := remote_calls ?w1 + k,
                printed := printed ?w1 @ map (\<lambda>i. m (Suc i)) [0..<k]\<rparr>)"
    using Suc.IH [where w = ?w1 and m = "\<lambda>i. m (Suc i)" and retry_times = "retry_times + 1"]
      rest Suc.prems(2) by simp
  then show ?case
    using step by (simp add: map_upt_Suc_shift del: upt_Suc)
qed

lemma filter_distinct_key:
  assumes "distinct (map f xs)" and "filter (\<lambda>x. f x = k) xs \<noteq> []"
  shows "\<exists>x. filter (\<lambda>x. f x = k) xs = [x]"
  using assms
proof (induction xs)
  case Nil
  then show ?case by simp
next
  case (Cons a xs)
  show ?case
  proof (cases "f a = k")
    case True
    have "\<And>x. x \<in> set xs \<Longrightarrow> f x \<noteq> k"
    proof
      fix x assume "x \<in> set xs" and "f x = k"
      then have "f a \<in> f ` set xs" using True by force
      with Cons.prems(1) show False by simp
    qed
    then have "filter (\<lambda>x. f x = k) xs = []"
      by (simp add: filter_empty_conv)
    with True show ?thesis by simp
  next
    case False
    with Cons show ?thesis by simp
  qed
qed

lemma phones_after_update_comp:
  "map (g_phone \<circ> (\<lambda>r. if g_phone r = phone
        then r\<lparr>g_name := nm, g_phone := phone, g_language := l, g_updated_at := t\<rparr>
        else r)) rows = map g_phone rows"
  by (induction rows) auto

lemma with_phone_after_update:
  "guests_with_phone phone (map (\<lambda>r. if g_phone r = phone
        then r\<lparr>g_name := nm, g_phone := phone, g_language := l, g_updated_at := t\<rparr>
        else r) rows) =
   map (\<lambda>r. r\<lparr>g_name := nm, g_phone := phone, g_language := l, g_updated_at := t\<rparr>)
     (guests_with_phone phone rows)"
  by (induction rows) (auto simp: guests_with_phone_def)

lemma guest_name_guests: "guests (snd (guest_name e n w)) = guests w"
  by (simp add: guest_name_def)

lemma guest_name_fst:
  "fst (guest_name e n w) = (if truthy n then n else PUUID (uuid4 e (uuid_draws w)))"
  by (simp add: guest_name_def)

text \<open>What the reconciliation of a guest with a usable phone does, in a table that holds
  no phone twice: afterwards one row holds the phone, with the name of this call, and the
  call returns that row's id.\<close>

lemma upsert_guest_usable:
  assumes "py_getattr guest ''Country'' = Inr country"
    and "country = PNone \<or> (\<exists>s. country = PStr s)"
    and "py_getattr guest ''Phone'' = Inr phone"
    and "py_getattr guest ''Name'' = Inr name"
    and "truthy phone" and "phone \<noteq> PStr ''Not available''"
    and "one_guest_per_phone w"
  shows "\<exists>r. guests_with_phone phone (guests (snd (update_or_create_guest e guest w))) = [r]
           \<and> g_name r = (if truthy name then name else PUUID (uuid4 e (uuid_draws w)))
           \<and> fst (update_or_create_guest e guest w) = Inr (Some (g_id r))"
proof -
  obtain language where lang: "get_guest_language (choices e) country = Inr language"
    using language_of_text [OF assms(2)] by blast
  obtain nm w1 where gn: "guest_name e name w = (nm, w1)" by (cases "guest_name e name w")
  have nm: "nm = (if truthy name then name else PUUID (uuid4 e (uuid_draws w)))"
    using gn guest_name_fst [of e name w] by simp
  have g1: "guests w1 = guests w" using gn guest_name_guests [of e name w] by simp
  show ?thesis
  proof (cases "guests_with_phone phone (guests w) = []")
    case True
    then show ?thesis
      using assms(1,3,4,5,6) lang gn nm g1
      by (simp add: update_or_create_guest_def guests_with_phone_def Let_def)
  next
    case False
    then obtain r0 where r0: "guests_with_phone phone (guests w) = [r0]"
      using filter_distinct_key [of g_phone "guests w" phone] assms(7)
      by (auto simp: guests_with_phone_def one_guest_per_phone_def)
    show ?thesis
      using assms(1,3,4,5,6) lang gn nm g1 False r0
      by (simp add: update_or_create_guest_def Let_def with_phone_after_update)
  qed
qed

lemma upsert_guest_invariant:
  assumes "one_guest_per_phone w"
  shows "one_guest_per_phone (snd (update_or_create_guest e guest w))"
  using assms
  by (auto simp: update_or_create_guest_def one_guest_per_phone_def guest_name_def Let_def
        guests_with_phone_def phones_after_update_comp filter_empty_conv
      split: sum.splits if_splits prod.splits list.splits)

lemma reconcile_guests_invariant:
  "one_guest_per_phone w \<Longrightarrow> one_guest_per_phone (reconcile_guests e gs w)"
  by (induction gs arbitrary: w) (auto simp: upsert_guest_invariant)

section \<open>Reconciliation of a stay\<close>

text \<open>
  Claim C1 says that \<^verbatim>\<open>update_or_create_stay\<close>, given a vendor stay whose hotel id
  resolves to no Hotel, raises \<^verbatim>\<open>IncorrectHotelIdException\<close> and leaves the Stay table
  unchanged. The code does leave the store unchanged, but the exception it raises is
  \<^verbatim>\<open>Hotel.DoesNotExist\<close>: \<^verbatim>\<open>Hotel.objects.all().get(...)\<close> raises it when no row has the
  vendor's hotel id, before the guard \<^verbatim>\<open>if not hotel_id\<close> of the next statement is reached.
  The theorem states what the code does for every such stay, every guest id and every
  store.
\<close>

theorem update_or_create_stay_unknown_hotel:
  assumes "py_getattr stay ''HotelId'' = Inr hid"
    and "hotels_with_pms_id hid (hotels w) = []"
  shows "update_or_create_stay e stay guest_id w = (Inl DoesNotExist, w)"
  using assms by (simp add: update_or_create_stay_def)

theorem update_or_create_stay_unknown_hotel_witness:
  "update_or_create_stay example_env (vendor_stay ''r2'' ''H9'' ''g2'' ''2026-11-06'') None
     example_world = (Inl DoesNotExist, example_world)"
proof -
  have a: "py_getattr (vendor_stay ''r2'' ''H9'' ''g2'' ''2026-11-06'') ''HotelId'' = Inr (PStr ''H9'')"
    by code_simp
  have b: "hotels_with_pms_id (PStr ''H9'') (hotels example_world) = []"
    by code_simp
  show ?thesis using update_or_create_stay_unknown_hotel [OF a b] .
qed

text \<open>
  Claim C4 says that reconciling the same vendor stay twice yields one Stay record whose
  updated-timestamp advances between the two reconciliations, every other field
  unchanged. The code writes the module constant \<^verbatim>\<open>now\<close>, set once when the module is
  loaded, as the timestamp of every creation and of every update. So after a first
  successful reconciliation a second one leaves \<^verbatim>\<open>updated_at\<close> equal to \<^verbatim>\<open>now\<close>; when the
  record existed before the first one, the second changes nothing in the store, the
  timestamp included; when the first one created the record, the updated-timestamp the
  second one writes equals the creation timestamp.
\<close>

theorem update_or_create_stay_twice:
  assumes first: "update_or_create_stay e stay guest_id w = (Inr (), w1)"
    and rid: "py_getattr stay ''ReservationId'' = Inr rid"
  shows "\<exists>w2. update_or_create_stay e stay guest_id w1 = (Inr (), w2)
           \<and> list_all (\<lambda>r. s_updated_at r = Some (now e)) (stays_with_reservation rid (stays w2))
           \<and> (if stays_with_reservation rid (stays w) \<noteq> [] then w2 = w1
              else list_all (\<lambda>r. s_created_at r = Some (now e))
                     (stays_with_reservation rid (stays w2)))"
proof -
  from first obtain hid h where hid: "py_getattr stay ''HotelId'' = Inr hid"
    and h: "qs_get (hotels_with_pms_id hid (hotels w)) = Inr h" and h0: "h_id h \<noteq> 0"
    by (auto simp: update_or_create_stay_def split: sum.splits if_splits)
  from first hid h h0 obtain gid status checkin checkout
    where attrs: "stay_attributes stay = Inr (rid, gid, status, checkin, checkout)"
    using rid
    by (auto simp: update_or_create_stay_def stay_attributes_def split: sum.splits if_splits)
  define upd :: "stay_row \<Rightarrow> stay_row" where "upd = (\<lambda>r. if s_pms_reservation_id r = rid
     then r\<lparr>s_hotel_id := h_id h, s_pms_reservation_id := rid,
            s_pms_guest_id := gid, s_guest_id := guest_id,
            s_status := status, s_checkin := checkin,
            s_checkout := checkout, s_updated_at := Some (now e)\<rparr>
     else r)"
  have upd_idem: "\<And>r. upd (upd r) = upd r" by (simp add: upd_def)
  have upd_key: "\<And>r. s_pms_reservation_id (upd r) = s_pms_reservation_id r"
    by (simp add: upd_def)
  have filt: "\<And>rows. stays_with_reservation rid (map upd rows) =
                      map upd (stays_with_reservation rid rows)"
    by (simp add: stays_with_reservation_def filter_map comp_def upd_key)
  have upd_at: "\<And>rows. list_all (\<lambda>r. s_updated_at r = Some (now e))
                         (map upd (stays_with_reservation rid rows))"
    by (simp add: list_all_iff stays_with_reservation_def upd_def)
  have step: "\<And>v. hotels v = hotels w \<Longrightarrow> stays_with_reservation rid (stays v) \<noteq> [] \<Longrightarrow>
      update_or_create_stay e stay guest_id v = (Inr (), v\<lparr>stays := map upd (stays v)\<rparr>)"
    using hid h h0 attrs by (simp add: update_or_create_stay_def upd_def)
  show ?thesis
  proof (cases "stays_with_reservation rid (stays w) = []")
    case False
    have w1: "w1 = w\<lparr>stays := map upd (stays w)\<rparr>"
      using step [of w] False first by simp
    have ex1: "stays_with_reservation rid (stays w1) \<noteq> []"
      using False by (simp add: w1 filt)
    have "update_or_create_stay e stay guest_id w1 = (Inr (), w1\<lparr>stays := map upd (stays w1)\<rparr>)"
      using step [of w1] ex1 by (simp add: w1)
    moreover have "w1\<lparr>stays := map upd (stays w1)\<rparr> = w1"
      by (simp add: w1 upd_idem comp_def)
    ultimately show ?thesis
      using False upd_at [of "stays w"] by (simp add: w1 filt)
  next
    case True
    define new where "new = \<lparr>s_id = fresh_id (map s_id (stays w)), s_hotel_id = h_id h,
                        s_pms_reservation_id = rid, s_pms_guest_id = gid,
                        s_guest_id = guest_id, s_status = status, s_checkin = checkin,
                        s_checkout = checkout, s_created_at = Some (now e),
                        s_updated_at = None\<rparr>"
    have w1: "w1 = w\<lparr>stays := stays w @ [new]\<rparr>"
      using first hid h h0 attrs True by (simp add: update_or_create_stay_def new_def)
    have sel1: "stays_with_reservation rid (stays w1) = [new]"
      using True by (simp add: w1 stays_with_reservation_def new_def)
    have second: "update_or_create_stay e stay guest_id w1 =
                    (Inr (), w1\<lparr>stays := map upd (stays w1)\<rparr>)"
      using step [of w1] sel1 by (simp add: w1)
    have "stays_with_reservation rid (stays (w1\<lparr>stays := map upd (stays w1)\<rparr>)) = [upd new]"
      using sel1 by (simp add: filt)
    moreover have "s_updated_at (upd new) = Some (now e)" "s_created_at (upd new) = Some (now e)"
      by (simp_all add: upd_def new_def)
    ultimately show ?thesis using second True by simp
  qed
qed

text \<open>The store already holds reservation \<^verbatim>\<open>r1\<close>, reconciled at \<^verbatim>\<open>now\<close>: reconciling it
  again, and again, changes nothing.\<close>

theorem update_or_create_stay_twice_witness:
  "update_or_create_stay example_env (vendor_stay ''r1'' ''H1'' ''g1'' ''2026-11-07'') None
     reconciled_world = (Inr (), reconciled_world)
   \<and> map s_updated_at (stays reconciled_world) = [Some (now example_env)]"
proof -
  let ?stay = "vendor_stay ''r1'' ''H1'' ''g1'' ''2026-11-07''"
  have a: "update_or_create_stay example_env ?stay None reconciled_world = (Inr (), reconciled_world)"
    by code_simp
  have b: "py_getattr ?stay ''ReservationId'' = Inr (PStr ''r1'')"
    by code_simp
  have c: "stays_with_reservation (PStr ''r1'') (stays reconciled_world) \<noteq> []"
    by code_simp
  have d: "map s_updated_at (stays reconciled_world) = [Some (now example_env)]"
    by code_simp
  from update_or_create_stay_twice [OF a b] c
  have "update_or_create_stay example_env ?stay None reconciled_world = (Inr (), reconciled_world)"
    by auto
  with d show ?thesis by simp
qed

section \<open>Reconciliation of a guest\<close>

text \<open>
  Claim C5: for every vendor guest whose phone number is empty or absent (\<^verbatim>\<open>None\<close>, the
  empty string, any false value) or equals \<^verbatim>\<open>'Not available'\<close>, \<^verbatim>\<open>update_or_create_guest\<close>
  returns \<^verbatim>\<open>None\<close> and changes nothing: no Guest row is created. A vendor guest has the
  attributes \<^verbatim>\<open>Country\<close> and \<^verbatim>\<open>Phone\<close>, and its country is a string or \<^verbatim>\<open>None\<close>.
\<close>

theorem update_or_create_guest_no_phone:
  assumes "py_getattr guest ''Country'' = Inr country"
    and "country = PNone \<or> (\<exists>s. country = PStr s)"
    and "py_getattr guest ''Phone'' = Inr phone"
    and "\<not> truthy phone \<or> phone = PStr ''Not available''"
  shows "update_or_create_guest e guest w = (Inr None, w)"
proof -
  obtain language where "get_guest_language (choices e) country = Inr language"
    using language_of_text [OF assms(2)] by blast
  then show ?thesis
    using assms(1,3,4) by (auto simp: update_or_create_guest_def)
qed

theorem update_or_create_guest_no_phone_witness:
  "update_or_create_guest example_env (vendor_guest ''g3'' ''Cy'' ''Not available'' ''NL'')
     example_world = (Inr None, example_world)
   \<and> update_or_create_guest example_env (vendor_guest ''g3'' ''Cy'' [] ''NL'')
     example_world = (Inr None, example_world)"
proof -
  have c: "\<And>p. py_getattr (vendor_guest ''g3'' ''Cy'' p ''NL'') ''Country'' = Inr (PStr ''NL'')"
    by (simp add: vendor_guest_def)
  have t: "PStr ''NL'' = PNone \<or> (\<exists>s. PStr ''NL'' = PStr s)" by simp
  have p: "\<And>p. py_getattr (vendor_guest ''g3'' ''Cy'' p ''NL'') ''Phone'' = Inr (PStr p)"
    by (simp add: vendor_guest_def)
  have "update_or_create_guest example_env (vendor_guest ''g3'' ''Cy'' ''Not available'' ''NL'')
          example_world = (Inr None, example_world)"
    using update_or_create_guest_no_phone [OF c t p] by simp
  moreover have "update_or_create_guest example_env (vendor_guest ''g3'' ''Cy'' [] ''NL'')
          example_world = (Inr None, example_world)"
    using update_or_create_guest_no_phone [OF c t p, of "[]"] by simp
  ultimately show ?thesis by simp
qed

text \<open>
  Claim C6: after any sequence of \<^verbatim>\<open>update_or_create_guest\<close> calls the Guest table holds
  at most one row per phone number, from a table that holds no phone twice and so from
  the empty table. In particular, when two vendor guests with the same usable phone are
  reconciled one after the other, exactly one row holds that phone afterwards; its name
  is the name the second reconciliation supplies (the vendor's name, or the placeholder
  it generates when the vendor's name is empty), and the first reconciliation returned
  the id of that same row.
\<close>

theorem update_or_create_guest_phone_dedup:
  assumes inv: "one_guest_per_phone w"
    and c1: "py_getattr g1 ''Country'' = Inr country1"
      "country1 = PNone \<or> (\<exists>s. country1 = PStr s)"
    and p1: "py_getattr g1 ''Phone'' = Inr phone"
    and n1: "py_getattr g1 ''Name'' = Inr name1"
    and c2: "py_getattr g2 ''Country'' = Inr country2"
      "country2 = PNone \<or> (\<exists>s. country2 = PStr s)"
    and p2: "py_getattr g2 ''Phone'' = Inr phone"
    and n2: "py_getattr g2 ''Name'' = Inr name2"
    and usable: "truthy phone" "phone \<noteq> PStr ''Not available''"
  shows "one_guest_per_phone (reconcile_guests e gs w)
     \<and> one_guest_per_phone (reconcile_guests e gs (w\<lparr>guests := []\<rparr>))
     \<and> (\<exists>r. guests_with_phone phone (guests (reconcile_guests e [g1, g2] w)) = [r]
            \<and> g_name r = (if truthy name2 then name2
                           else PUUID (uuid4 e (uuid_draws (reconcile_guests e [g1] w))))
            \<and> fst (update_or_create_guest e g1 w) = Inr (Some (g_id r)))"
proof -
  let ?w1 = "snd (update_or_create_guest e g1 w)"
  let ?w2 = "snd (update_or_create_guest e g2 ?w1)"
  have a: "one_guest_per_phone (reconcile_guests e gs w)"
    using inv by (rule reconcile_guests_invariant)
  have "one_guest_per_phone (w\<lparr>guests := []\<rparr>)"
    by (simp add: one_guest_per_phone_def)
  then have b: "one_guest_per_phone (reconcile_guests e gs (w\<lparr>guests := []\<rparr>))"
    by (rule reconcile_guests_invariant)
  have inv1: "one_guest_per_phone ?w1"
    using inv by (rule upsert_guest_invariant)
  obtain r1 where r1: "guests_with_phone phone (guests ?w1) = [r1]"
    and id1: "fst (update_or_create_guest e g1 w) = Inr (Some (g_id r1))"
    using upsert_guest_usable [OF c1 p1 n1 usable inv] by blast
  obtain r2 where r2: "guests_with_phone phone (guests ?w2) = [r2]"
    and nm2: "g_name r2 = (if truthy name2 then name2 else PUUID (uuid4 e (uuid_draws ?w1)))"
    and id2: "fst (update_or_create_guest e g2 ?w1) = Inr (Some (g_id r2))"
    using upsert_guest_usable [OF c2 p2 n2 usable inv1] by blast
  have "fst (update_or_create_guest e g2 ?w1) = Inr (Some (g_id r1))"
  proof -
    obtain language where lang: "get_guest_language (choices e) country2 = Inr language"
      using language_of_text [OF c2(2)] by blast
    obtain nm v where gn: "guest_name e name2 ?w1 = (nm, v)"
      by (cases "guest_name e name2 ?w1")
    have gv: "guests v = guests ?w1" using gn guest_name_guests [of e name2 ?w1] by simp
    show ?thesis
      using c2(1) p2 n2 usable lang gn gv r1
      by (simp add: update_or_create_guest_def Let_def with_phone_after_update)
  qed
  with id2 have "g_id r2 = g_id r1" by simp
  with r2 nm2 id1 have "guests_with_phone phone (guests (reconcile_guests e [g1, g2] w)) = [r2]
      \<and> g_name r2 = (if truthy name2 then name2
                      else PUUID (uuid4 e (uuid_draws (reconcile_guests e [g1] w))))
      \<and> fst (update_or_create_guest e g1 w) = Inr (Some (g_id r2))"
    by simp
  then show ?thesis using a b by blast
qed

theorem update_or_create_guest_phone_dedup_witness:
  "one_guest_per_phone
     (reconcile_guests example_env
        [vendor_guest ''g1'' ''Ada'' ''+31201234567'' ''NL'',
         vendor_guest ''g7'' ''Ada Lovelace'' ''+31201234567'' ''GB'',
         vendor_guest ''g2'' ''Bob'' ''+49301234567'' ''DE''] example_world)
   \<and> (\<exists>r. guests_with_phone (PStr ''+31201234567'')
            (guests (reconcile_guests example_env
               [vendor_guest ''g1'' ''Ada'' ''+31201234567'' ''NL'',
                vendor_guest ''g7'' ''Ada Lovelace'' ''+31201234567'' ''GB''] example_world)) = [r]
          \<and> g_name r = PStr ''Ada Lovelace'')"
proof -
  let ?g1 = "vendor_guest ''g1'' ''Ada'' ''+31201234567'' ''NL''"
  let ?g2 = "vendor_guest ''g7'' ''Ada Lovelace'' ''+31201234567'' ''GB''"
  have inv: "one_guest_per_phone example_world"
    by (simp add: one_guest_per_phone_def example_world_def)
  have c1: "py_getattr ?g1 ''Country'' = Inr (PStr ''NL'')" by (simp add: vendor_guest_def)
  have t1: "PStr ''NL'' = PNone \<or> (\<exists>s. PStr ''NL'' = PStr s)" by simp
  have p1: "py_getattr ?g1 ''Phone'' = Inr (PStr ''+31201234567'')" by (simp add: vendor_guest_def)
  have n1: "py_getattr ?g1 ''Name'' = Inr (PStr ''Ada'')" by (simp add: vendor_guest_def)
  have c2: "py_getattr ?g2 ''Country'' = Inr (PStr ''GB'')" by (simp add: vendor_guest_def)
  have t2: "PStr ''GB'' = PNone \<or> (\<exists>s. PStr ''GB'' = PStr s)" by simp
  have p2: "py_getattr ?g2 ''Phone'' = Inr (PStr ''+31201234567'')" by (simp add: vendor_guest_def)
  have n2: "py_getattr ?g2 ''Name'' = Inr (PStr ''Ada Lovelace'')" by (simp add: vendor_guest_def)
  have u: "truthy (PStr ''+31201234567'')" "PStr ''+31201234567'' \<noteq> PStr ''Not available''"
    by simp_all
  show ?thesis
    using update_or_create_guest_phone_dedup [OF inv c1 t1 p1 n1 c2 t2 p2 n2 u,
        of example_env "[?g1, ?g2, vendor_guest ''g2'' ''Bob'' ''+49301234567'' ''DE'']"]
    by auto
qed

section \<open>The retrying call\<close>

text \<open>
  Claim C3: when the remote call fails with the vendor-API-unavailable signal on every
  attempt, \<^verbatim>\<open>make_api_call_with_retry\<close> makes exactly ten remote calls, prints their ten
  messages, and raises \<^verbatim>\<open>APIError\<close>; it returns no cleaned value, and the tables of the
  store are as before (only the two counters of the call have moved).
\<close>

theorem make_api_call_with_retry_exhaustion:
  assumes "\<forall>i<10. request p (remote_calls w + i) = Unavailable (m i)"
  shows "make_api_call_with_retry e name request p w =
         (Inl (APIError []),
          w\<lparr>remote_calls := remote_calls w + 10, printed := printed w @ map m [0..<10]\<rparr>)"
proof -
  have "retry_loop e (get_pms name) request p 0 w =
        retry_loop e (get_pms name) request p 10
          (w\<lparr>remote_calls := remote_calls w + 10, printed := printed w @ map m [0..<10]\<rparr>)"
    using retry_loop_unavailable [where k = 10 and request = request and p = p and w = w
        and m = m and retry_times = 0 and e = e and pms = "get_pms name"] assms by simp
  also have "\<dots> = (Inr (PNone, 10),
          w\<lparr>remote_calls := remote_calls w + 10, printed := printed w @ map m [0..<10]\<rparr>)"
    by (subst retry_loop.simps) simp
  finally show ?thesis by (simp add: make_api_call_with_retry_def)
qed

theorem make_api_call_with_retry_exhaustion_witness:
  "make_api_call_with_retry example_env ''Mews'' unavailable_api (PStr ''r1'') example_world =
   (Inl (APIError []),
    example_world\<lparr>remote_calls := 10, printed := replicate 10 ''API is not available''\<rparr>)"
proof -
  have h: "\<forall>i<10. unavailable_api (PStr ''r1'') (remote_calls example_world + i) =
                 Unavailable ''API is not available''"
    by (simp add: unavailable_api_def)
  have c: "remote_calls example_world = 0" "printed example_world = []"
    by (simp_all add: example_world_def)
  have r: "map (\<lambda>i::nat. ''API is not available'') [0..<10] = replicate 10 ''API is not available''"
    by (simp add: map_replicate_const)
  show ?thesis
    using make_api_call_with_retry_exhaustion [where request = unavailable_api
        and p = "PStr ''r1''" and w = example_world and m = "\<lambda>i. ''API is not available''"
        and e = example_env and name = "''Mews''"] h
    by (simp only: c r add_0 append_Nil)
qed

text \<open>
  Claim C10: in \<^verbatim>\<open>make_api_call_with_retry\<close> only \<^verbatim>\<open>APIError\<close> leads to another attempt.
  When, after any number \<open>k < 10\<close> of unavailable attempts, a response is fetched and
  cleaning it raises an error, that error reaches the caller at once: \<open>k + 1\<close> remote calls
  have been made and no further one is.
\<close>

theorem make_api_call_with_retry_clean_error:
  assumes "\<forall>i<k. request p (remote_calls w + i) = Unavailable (m i)"
    and "k < 10"
    and "request p (remote_calls w + k) = Body data"
    and "pms_clean e (get_pms name) data = Inl err"
  shows "make_api_call_with_retry e name request p w =
         (Inl err,
          w\<lparr>remote_calls := remote_calls w + k + 1, printed := printed w @ map m [0..<k]\<rparr>)"
proof -
  let ?w = "w\<lparr>remote_calls := remote_calls w + k, printed := printed w @ map m [0..<k]\<rparr>"
  have notapi: "\<And>msg. err \<noteq> APIError msg"
    using assms(4) pms_clean_not_APIError by metis
  have "retry_loop e (get_pms name) request p 0 w = retry_loop e (get_pms name) request p k ?w"
    using retry_loop_unavailable [where k = k and request = request and p = p and w = w
        and m = m and retry_times = 0 and e = e and pms = "get_pms name"] assms(1,2) by simp
  also have "\<dots> = (Inl err, ?w\<lparr>remote_calls := remote_calls ?w + 1\<rparr>)"
    using assms(2,3,4) notapi
    by (subst retry_loop.simps) (cases err; force simp: attempt_def)
  finally show ?thesis by (simp add: make_api_call_with_retry_def)
qed

text \<open>Two unavailable attempts, then a response whose body is empty: \<^verbatim>\<open>JsonValueError\<close>
  after three remote calls.\<close>

theorem make_api_call_with_retry_clean_error_witness:
  "make_api_call_with_retry example_env ''Mews'' empty_after_two (PStr ''r1'') example_world =
   (Inl (JsonValueError ''Incorrect json input''),
    example_world\<lparr>remote_calls := 3,
                  printed := [''API is not available'', ''API is not available'']\<rparr>)"
proof -
  have c: "remote_calls example_world = 0" "printed example_world = []"
    by (simp_all add: example_world_def)
  have h: "\<forall>i<2. empty_after_two (PStr ''r1'') (remote_calls example_world + i) =
                  Unavailable ''API is not available''"
    by (simp add: c empty_after_two_def)
  have k: "(2::nat) < 10" by simp
  have b: "empty_after_two (PStr ''r1'') (remote_calls example_world + 2) = Body []"
    by (simp add: c empty_after_two_def)
  have e: "pms_clean example_env (get_pms ''Mews'') [] = Inl (JsonValueError ''Incorrect json input'')"
    by code_simp
  have r: "map (\<lambda>i::nat. ''API is not available'') [0..<2] =
             [''API is not available'', ''API is not available'']"
    by (simp add: upt_rec)
  have "make_api_call_with_retry example_env ''Mews'' empty_after_two (PStr ''r1'') example_world =
         (Inl (JsonValueError ''Incorrect json input''),
          example_world\<lparr>remote_calls := remote_calls example_world + 2 + 1,
             printed := printed example_world @ map (\<lambda>i::nat. ''API is not available'') [0..<2]\<rparr>)"
    using make_api_call_with_retry_clean_error [where request = empty_after_two
        and p = "PStr ''r1''" and w = example_world and m = "\<lambda>i. ''API is not available''"
        and e = example_env and name = "''Mews''" and k = 2 and data = "[]"
        and err = "JsonValueError ''Incorrect json input''"] h k b e
    by blast
  then show ?thesis by (simp only: c r append_Nil) simp
qed

section \<open>Cleaning\<close>

text \<open>
  Claim C7 says that \<^verbatim>\<open>clean_webhook_payload\<close> fails with an error of the malformed-payload
  class on empty input and on unparsable content. On empty input it raises
  \<^verbatim>\<open>JsonValueError\<close>. On content that makes \<^verbatim>\<open>json.loads\<close> raise \<^verbatim>\<open>JSONDecodeError\<close> the
  handler's \<^verbatim>\<open>raise JSONDecodeError\<close> cannot build the exception (the class needs three
  arguments), and what the caller receives is \<^verbatim>\<open>TypeError\<close>.
\<close>

theorem clean_webhook_payload_unparsable:
  assumes "payload \<noteq> []" and "json_loads decode payload = Inl JSONDecodeError"
  shows "clean_webhook_payload decode payload = Inl TypeError
         \<and> clean_webhook_payload decode [] = Inl (JsonValueError ''Incorrect json input'')"
  using assms by (simp add: clean_webhook_payload_def)

theorem clean_webhook_payload_unparsable_witness:
  "clean_webhook_payload example_decode ''{'' = Inl TypeError
   \<and> clean_webhook_payload example_decode [] = Inl (JsonValueError ''Incorrect json input'')"
proof -
  have a: "''{'' \<noteq> []" by simp
  have b: "json_loads example_decode ''{'' = Inl JSONDecodeError" by code_simp
  show ?thesis using clean_webhook_payload_unparsable [OF a b] .
qed

section \<open>Language\<close>







section \<open>The webhook handler on its events\<close>

text \<open>
  Claim C9: for a cleaned payload whose \<^verbatim>\<open>Events\<close> list is empty, \<^verbatim>\<open>handle_webhook\<close> returns
  \<^verbatim>\<open>True\<close>, makes no remote call and changes nothing in the store.
\<close>

theorem handle_webhook_no_events:
  assumes "py_getattr webhook_data ''Events'' = Inr (PList [])"
  shows "handle_webhook e self webhook_data w = (Inr True, w)"
  using assms by (simp add: handle_webhook_def)

theorem handle_webhook_no_events_witness:
  "handle_webhook example_env PMS_Mews (PX [(''Events'', PList [])]) example_world =
     (Inr True, example_world)"
proof -
  have a: "py_getattr (PX [(''Events'', PList [])]) ''Events'' = Inr (PList [])" by simp
  show ?thesis using handle_webhook_no_events [OF a] .
qed

text \<open>
  Claim C2 says that a webhook with two events, one for a reservation of a known hotel and
  one for a reservation of an unknown hotel, all remote calls succeeding, makes
  \<^verbatim>\<open>handle_webhook\<close> return \<^verbatim>\<open>True\<close> with exactly one Stay created or updated. In the code
  the event of the unknown hotel raises \<^verbatim>\<open>Hotel.DoesNotExist\<close> (see C1), which only the
  clause \<^verbatim>\<open>except Exception\<close> catches: the handler returns \<^verbatim>\<open>False\<close> there and handles no
  later event. With the unknown hotel first (the payload \<open>webhook_text\<close>) no Stay exists
  afterwards; with the known hotel first, one does, and the result is still \<^verbatim>\<open>False\<close>.
\<close>

theorem handle_webhook_unknown_hotel_aborts:
  "clean_webhook_payload (json_decode example_env) webhook_text =
     Inr (PX [(''Events'', PList [webhook_event ''r2'', webhook_event ''r1''])])
   \<and> fst (handle_event example_env PMS_Mews (webhook_event ''r2'') example_world) =
       Inl DoesNotExist
   \<and> (case handle_webhook example_env PMS_Mews
             (PX [(''Events'', PList [webhook_event ''r2'', webhook_event ''r1''])])
             example_world of
        (result, w) \<Rightarrow> result = Inr False \<and> stays w = [] \<and> remote_calls w = 2)
   \<and> (case handle_webhook example_env PMS_Mews
             (PX [(''Events'', PList [webhook_event ''r1'', webhook_event ''r2''])])
             example_world of
        (result, w) \<Rightarrow> result = Inr False \<and> length (stays w) = 1 \<and> remote_calls w = 4)"
proof -
  have a: "clean_webhook_payload (json_decode example_env) webhook_text =
             Inr (PX [(''Events'', PList [webhook_event ''r2'', webhook_event ''r1''])])"
    by code_simp
  have b: "fst (handle_event example_env PMS_Mews (webhook_event ''r2'') example_world) =
             Inl DoesNotExist"
    by code_simp
  have c: "case handle_webhook example_env PMS_Mews
                  (PX [(''Events'', PList [webhook_event ''r2'', webhook_event ''r1''])])
                  example_world of
             (result, w) \<Rightarrow> result = Inr False \<and> stays w = [] \<and> remote_calls w = 2"
    by code_simp
  have d: "case handle_webhook example_env PMS_Mews
                  (PX [(''Events'', PList [webhook_event ''r1'', webhook_event ''r2''])])
                  example_world of
             (result, w) \<Rightarrow> result = Inr False \<and> length (stays w) = 1 \<and> remote_calls w = 4"
    by code_simp
  from a b c d show ?thesis by (intro conjI)
qed

end
